theory Spec2Isabelle
  imports Complex_Main "HOL-Library.Sublist" "HOL-Library.Monad_Syntax"
begin

section \<open>Python text primitives\<close>

text \<open>
  Texts are modelled as \<^typ>\<open>string\<close>, one \<^typ>\<open>char\<close> per code point, read as ASCII.
  The character classes below are Python's \<^verbatim>\<open>str\<close> predicates and the \<^verbatim>\<open>re\<close> classes
  restricted to the code points below 128; a code point from 128 on belongs to no class.
  Python floats are modelled as exact rationals.
\<close>

definition code :: "char \<Rightarrow> nat" where
  "code c = of_char c"

abbreviation NL :: char where "NL \<equiv> CHR 0x0A"
abbreviation CR :: char where "CR \<equiv> CHR 0x0D"

text \<open>\<^verbatim>\<open>str.isspace\<close>: tab, LF, VT, FF, CR, the separators FS, GS, RS, US, and space.\<close>

definition is_space :: "char \<Rightarrow> bool" where
  "is_space c = ((9 \<le> code c \<and> code c \<le> 13) \<or> (28 \<le> code c \<and> code c \<le> 32))"

definition is_digit :: "char \<Rightarrow> bool" where
  "is_digit c = (48 \<le> code c \<and> code c \<le> 57)"

definition is_upper :: "char \<Rightarrow> bool" where
  "is_upper c = (65 \<le> code c \<and> code c \<le> 90)"

definition is_lower :: "char \<Rightarrow> bool" where
  "is_lower c = (97 \<le> code c \<and> code c \<le> 122)"

text \<open>The regular expression class \<^verbatim>\<open>[A-Za-z]\<close>.\<close>

definition is_letter :: "char \<Rightarrow> bool" where
  "is_letter c = (is_upper c \<or> is_lower c)"

text \<open>The regular expression class \<^verbatim>\<open>\w\<close>.\<close>

definition is_word :: "char \<Rightarrow> bool" where
  "is_word c = (is_letter c \<or> is_digit c \<or> c = CHR ''_'')"

definition to_lower :: "char \<Rightarrow> char" where
  "to_lower c = (if is_upper c then char_of (code c + 32) else c)"

text \<open>\<^verbatim>\<open>str.lower\<close>\<close>

definition lower :: "string \<Rightarrow> string" where
  "lower s = map to_lower s"

text \<open>\<^verbatim>\<open>str.strip\<close> with no argument\<close>

definition strip :: "string \<Rightarrow> string" where
  "strip s = rev (dropWhile is_space (rev (dropWhile is_space s)))"

text \<open>\<^verbatim>\<open>str.count\<close> of a one-character string\<close>

definition count_char :: "char \<Rightarrow> string \<Rightarrow> nat" where
  "count_char c s = length (filter (\<lambda>x. x = c) s)"

text \<open>\<^verbatim>\<open>sub in s\<close>\<close>

fun contains :: "string \<Rightarrow> string \<Rightarrow> bool" where
  "contains sub [] = (sub = [])"
| "contains sub (x # xs) = (prefix sub (x # xs) \<or> contains sub xs)"

text \<open>\<^verbatim>\<open>sep.join(parts)\<close>\<close>

fun join :: "string \<Rightarrow> string list \<Rightarrow> string" where
  "join sep [] = []"
| "join sep [x] = x"
| "join sep (x # y # ys) = x @ sep @ join sep (y # ys)"

text \<open>Putting a character in front of the first piece of a split.\<close>

fun cons_first :: "char \<Rightarrow> string list \<Rightarrow> string list" where
  "cons_first x [] = [[x]]"
| "cons_first x (y # ys) = (x # y) # ys"

text \<open>
  \<^verbatim>\<open>s.split(sep)\<close> for a non-empty separator: the pieces between the occurrences of
  \<open>sep\<close>, found from left to right without overlap. (Python raises on an empty
  separator; the source only passes the literals \<^verbatim>\<open>"\n"\<close> and \<^verbatim>\<open>"\n\n"\<close>.)
\<close>

function split :: "string \<Rightarrow> string \<Rightarrow> string list" where
  "split sep [] = [[]]"
| "split sep (x # xs) =
     (if sep \<noteq> [] \<and> prefix sep (x # xs)
      then [] # split sep (drop (length sep) (x # xs))
      else cons_first x (split sep xs))"
  by pat_completeness auto
termination
  by (relation "measure (\<lambda>(sep, s). length s)") (auto simp: neq_Nil_conv)

text \<open>\<^verbatim>\<open>s.replace(old, new)\<close> for a non-empty \<open>old\<close>\<close>

function replace :: "string \<Rightarrow> string \<Rightarrow> string \<Rightarrow> string" where
  "replace old new [] = []"
| "replace old new (x # xs) =
     (if old \<noteq> [] \<and> prefix old (x # xs)
      then new @ replace old new (drop (length old) (x # xs))
      else x # replace old new xs)"
  by pat_completeness auto
termination
  by (relation "measure (\<lambda>(old, new, s). length s)") (auto simp: neq_Nil_conv)

text \<open>
  \<^verbatim>\<open>str.splitlines\<close>: the line boundaries among the ASCII code points are LF, CR, CR LF,
  VT, FF, FS, GS and RS; no empty last line is produced.
\<close>

definition is_linebreak :: "char \<Rightarrow> bool" where
  "is_linebreak c = ((10 \<le> code c \<and> code c \<le> 13) \<or> (28 \<le> code c \<and> code c \<le> 30))"

fun splitlines :: "string \<Rightarrow> string list" where
  "splitlines [] = []"
| "splitlines [x] = (if is_linebreak x then [[]] else [[x]])"
| "splitlines (x # y # ys) =
     (if x = CR \<and> y = NL then [] # splitlines ys
      else if is_linebreak x then [] # splitlines (y # ys)
      else cons_first x (splitlines (y # ys)))"

text \<open>
  \<^verbatim>\<open>re.findall(r"\b\w+\b", s)\<close>: the maximal runs of word characters, from left to right.
\<close>

function words :: "string \<Rightarrow> string list" where
  "words [] = []"
| "words (x # xs) =
     (if is_word x then (x # takeWhile is_word xs) # words (dropWhile is_word xs)
      else words xs)"
  by pat_completeness auto
termination
  by (relation "measure length") (auto simp: le_imp_less_Suc length_dropWhile_le)

text \<open>
  \<^verbatim>\<open>len(re.findall(r"\b\d+\b", s))\<close>: a run of digits between two word boundaries is a
  maximal run of word characters made of digits only.
\<close>

definition number_count :: "string \<Rightarrow> nat" where
  "number_count s = length (filter (list_all is_digit) (words s))"

text \<open>
  \<^verbatim>\<open>len(re.findall(c + r"\w+", s))\<close> for a character \<open>c\<close> that is not a word character
  (\<^verbatim>\<open>#\<close> and \<^verbatim>\<open>@\<close> in the source): each match is \<open>c\<close> and the longest run of word
  characters after it, and the search goes on behind the match.
\<close>

function count_tagged :: "char \<Rightarrow> string \<Rightarrow> nat" where
  "count_tagged c [] = 0"
| "count_tagged c (x # xs) =
     (if x = c \<and> takeWhile is_word xs \<noteq> []
      then 1 + count_tagged c (dropWhile is_word xs)
      else count_tagged c xs)"
  by pat_completeness auto
termination
  by (relation "measure (\<lambda>(c, s). length s)") (auto simp: le_imp_less_Suc length_dropWhile_le)

text \<open>\<^verbatim>\<open>bool(re.search(r"https?://|www\.", s))\<close>\<close>

definition has_url :: "string \<Rightarrow> bool" where
  "has_url s = (contains ''http://'' s \<or> contains ''https://'' s \<or> contains ''www.'' s)"

text \<open>
  \<^verbatim>\<open>re.split(r"[.!?]+", s)\<close>: the pieces between the runs of sentence terminators.
\<close>

definition is_terminator :: "char \<Rightarrow> bool" where
  "is_terminator c = (c = CHR ''.'' \<or> c = CHR ''!'' \<or> c = CHR ''?'')"

function split_sentences :: "string \<Rightarrow> string list" where
  "split_sentences [] = [[]]"
| "split_sentences (x # xs) =
     (if is_terminator x then [] # split_sentences (dropWhile is_terminator xs)
      else cons_first x (split_sentences xs))"
  by pat_completeness auto
termination
  by (relation "measure length") (auto simp: le_imp_less_Suc length_dropWhile_le)

text \<open>
  \<^verbatim>\<open>re.search(r"\b" + pat + r"\b", s)\<close> for a literal \<open>pat\<close> that begins and ends with a
  word character: \<open>pat\<close> occurs with no word character right before it and none right
  after it. The flag says whether the character before the current position is a word
  character.
\<close>

fun search_bounded_from :: "bool \<Rightarrow> string \<Rightarrow> string \<Rightarrow> bool" where
  "search_bounded_from prev pat [] = False"
| "search_bounded_from prev pat (x # xs) =
     ((\<not> prev \<and> prefix pat (x # xs) \<and>
        (case drop (length pat) (x # xs) of [] \<Rightarrow> True | y # ys \<Rightarrow> \<not> is_word y))
      \<or> search_bounded_from (is_word x) pat xs)"

definition search_bounded :: "string \<Rightarrow> string \<Rightarrow> bool" where
  "search_bounded pat s = search_bounded_from False pat s"

text \<open>
  \<^verbatim>\<open>round(x, n)\<close>: to the nearest multiple of \<open>10\<^sup>-\<^sup>n\<close>, a tie going to the even one.
\<close>

definition round_half_even :: "rat \<Rightarrow> int" where
  "round_half_even x =
     (let f = \<lfloor>x\<rfloor>; d = x - of_int f
      in if d < 1 / 2 then f else if 1 / 2 < d then f + 1 else if even f then f else f + 1)"

definition py_round :: "rat \<Rightarrow> nat \<Rightarrow> rat" where
  "py_round x n = of_int (round_half_even (x * 10 ^ n)) / 10 ^ n"

section \<open>Data model (models/schemas.py)\<close>

datatype ContentType = TWEET | THREAD | REPLY | QUOTE

section \<open>Virality scoring (utils/virality.py)\<close>

definition length_score :: "nat \<Rightarrow> ContentType \<Rightarrow> rat" where
  "length_score len content_type =
     (let (ideal_min, ideal_max) =
            (if content_type = REPLY then (60, 200)
             else if content_type = QUOTE then (80, 200)
             else if content_type = THREAD then (120, 260)
             else (100::int, 220::int));
          min_value = 30; max_value = 280; n = int len
      in if n \<le> min_value \<or> n \<ge> max_value then 0
         else if n < ideal_min then of_int (n - min_value) / of_int (max (ideal_min - min_value) 1)
         else if n > ideal_max
           then max 0 (of_int (max_value - n) / of_int (max (max_value - ideal_max) 1))
         else 1)"

text \<open>
  The ideal band of each content type as the specification lists it (the hard bounds
  are 30 and 280 for all of them).
\<close>

definition spec_ideal_band :: "ContentType \<Rightarrow> rat \<times> rat" where
  "spec_ideal_band content_type =
     (case content_type of
        REPLY \<Rightarrow> (60, 200) | QUOTE \<Rightarrow> (80, 200) | THREAD \<Rightarrow> (120, 260) | TWEET \<Rightarrow> (100, 220))"


text \<open>
  A division whose divisor is computed from the input raises \<^verbatim>\<open>ZeroDivisionError\<close> on
  zero; \<open>None\<close> stands for the raised exception.
\<close>

definition py_div :: "rat \<Rightarrow> rat \<Rightarrow> rat option" where
  "py_div a b = (if b = 0 then None else Some (a / b))"

text \<open>A \<^verbatim>\<open>dict[str, float]\<close> as an association list in insertion order.\<close>

type_synonym dict = "(string \<times> rat) list"

definition dict_get :: "dict \<Rightarrow> string \<Rightarrow> rat \<Rightarrow> rat" where
  "dict_get d k dflt = (case map_of d k of None \<Rightarrow> dflt | Some v \<Rightarrow> v)"

fun dict_set :: "dict \<Rightarrow> string \<Rightarrow> rat \<Rightarrow> dict" where
  "dict_set [] k v = [(k, v)]"
| "dict_set ((k', v') # d) k v = (if k' = k then (k, v) # d else (k', v') # dict_set d k v)"

text \<open>\<^verbatim>\<open>list(dict.fromkeys(xs))\<close>: the first occurrence of each element, in order.\<close>

definition fromkeys :: "'a list \<Rightarrow> 'a list" where
  "fromkeys xs = fold (\<lambda>x acc. if x \<in> set acc then acc else acc @ [x]) xs []"

definition ENGAGEMENT_BAIT_PATTERNS :: "string list" where
  "ENGAGEMENT_BAIT_PATTERNS =
     [''rt if'', ''like if'', ''retweet if'', ''share if'', ''follow me'', ''free giveaway'',
      ''airdrop'', ''dm me'', ''subscribe'']"

definition SHARE_KEYWORDS :: "string list" where
  "SHARE_KEYWORDS =
     [''framework'', ''checklist'', ''playbook'', ''lessons'', ''mistake'', ''mistakes'',
      ''rules'', ''steps'', ''ways'', ''principles'', ''guide'', ''template'', ''how to'',
      ''counterintuitive'', ''unpopular'', ''truth'']"

definition REPLY_KEYWORDS :: "string list" where
  "REPLY_KEYWORDS =
     [''thoughts'', ''agree'', ''disagree'', ''anyone else'', ''curious'', ''hot take'',
      ''what do you think'']"

definition CLICK_KEYWORDS :: "string list" where
  "CLICK_KEYWORDS =
     [''link'', ''full'', ''read'', ''guide'', ''template'', ''resource'', ''download'', ''demo'']"

definition HOOK_KEYWORDS :: "string list" where
  "HOOK_KEYWORDS =
     [''here'' @ [CHR 0x27] @ ''s'', ''nobody'', ''stop'', ''hot take'', ''wild'', ''truth'',
      ''mistake'', ''counterintuitive'', ''unpopular'', ''the real'', ''what nobody'',
      ''this is why'', ''changed how i'']"

text \<open>The field \<^verbatim>\<open>notes\<close> is \<open>notes'\<close> here: \<open>notes\<close> is a keyword of Isabelle.\<close>

record ViralityResult =
  score :: rat
  components :: dict
  notes' :: "string list"

definition aggregate_score :: "dict \<Rightarrow> rat" where
  "aggregate_score comps =
     (let weights = [(''reply_potential'', 2 / 10), (''share_potential'', 25 / 100),
                     (''click_potential'', 1 / 10), (''dwell_potential'', 25 / 100),
                     (''clarity'', 2 / 10)];
          positive = sum_list (map (\<lambda>(key, w). w * dict_get comps key 0) weights);
          penalty = dict_get comps ''negative_risk'' 0 * 20
      in max 0 (min 100 (positive * 100 - penalty)))"

definition clarity_score :: "rat \<Rightarrow> nat \<Rightarrow> nat \<Rightarrow> rat" where
  "clarity_score avg_sentence_len len exclamations =
     (if avg_sentence_len \<le> 0 then 5 / 10
      else
        let base = 1 - min 1 (\<bar>avg_sentence_len - 14\<bar> / 14);
            base = (if len > 250 then base * (8 / 10) else base);
            base = (if exclamations \<ge> 4 then base * (8 / 10) else base)
        in max 0 (min 1 base))"

definition has_keywords :: "string \<Rightarrow> string list \<Rightarrow> bool" where
  "has_keywords text keywords =
     (let lowered = lower text in list_ex (\<lambda>keyword. contains keyword lowered) keywords)"

definition hook_score :: "string \<Rightarrow> rat" where
  "hook_score text =
     (let ws = words (lower text);
          first_words = join '' '' (take 12 ws)
      in if first_words = [] then 0
         else if list_ex (\<lambda>keyword. contains keyword first_words) HOOK_KEYWORDS then 1
         else 3 / 10)"

definition negative_risk :: "string \<Rightarrow> nat \<Rightarrow> nat \<Rightarrow> nat \<Rightarrow> rat \<Rightarrow> rat" where
  "negative_risk text hashtags mentions exclamations uppercase_ratio =
     (let lowered = lower text;
          risk = 0;
          risk = (if list_ex (\<lambda>pattern. search_bounded pattern lowered) ENGAGEMENT_BAIT_PATTERNS
                  then risk + 5 / 10 else risk);
          risk = (if hashtags > 2 then risk + 2 / 10 else risk);
          risk = (if mentions > 2 then risk + 2 / 10 else risk);
          risk = (if exclamations > 3 then risk + 1 / 10 else risk);
          risk = (if uppercase_ratio > 35 / 100 then risk + 2 / 10 else risk);
          risk = (if list_ex (\<lambda>pattern. search_bounded pattern lowered)
                       [''spam'', ''giveaway'', ''free money'', ''pump'']
                  then risk + 2 / 10 else risk)
      in min 1 risk)"

definition notes_from_components ::
  "rat \<Rightarrow> rat \<Rightarrow> rat \<Rightarrow> rat \<Rightarrow> rat \<Rightarrow> rat \<Rightarrow> nat \<Rightarrow> ContentType \<Rightarrow> string list" where
  "notes_from_components reply_potential share_potential click_potential dwell_potential
       clarity risk len content_type =
     (if share_potential \<ge> 7 / 10 then [''Shareable insight''] else []) @
     (if reply_potential \<ge> 7 / 10 then [''Strong reply prompt''] else []) @
     (if click_potential \<ge> 7 / 10 then [''Clear click value''] else []) @
     (if dwell_potential \<ge> 7 / 10 then [''Good dwell potential''] else []) @
     (if clarity < 5 / 10 then [''Clarity could be tighter''] else []) @
     (if risk \<ge> 5 / 10 then [''Risk: looks like engagement bait''] else []) @
     (if content_type \<noteq> THREAD
      then (if len < 70 then [''May be too short'']
            else if len > 250 then [''May be too long''] else [])
      else [])"

text \<open>
  The line prefixes of a list item. The source has a fifth one, the bullet U+2022, which
  is not an ASCII character: no line of this model starts with it.
\<close>

definition has_list_line :: "string \<Rightarrow> bool" where
  "has_list_line cleaned =
     list_ex (\<lambda>line. list_ex (\<lambda>p. prefix p (strip line)) [''-'', ''*'', ''1.'', ''1)''])
       (splitlines cleaned)"

definition score_text :: "string \<Rightarrow> ContentType \<Rightarrow> ViralityResult option" where
  "score_text text content_type =
     (let cleaned = strip text in
      if cleaned = [] then Some \<lparr>score = 0, components = [], notes' = [''Empty content'']\<rparr>
      else do {
        let len = length cleaned;
        let letters = filter is_letter cleaned;
        let upper = length (filter is_upper cleaned);
        uppercase_ratio \<leftarrow>
          (if letters \<noteq> [] then py_div (of_nat upper) (of_nat (length letters)) else Some 0);
        let question_marks = count_char CHR ''?'' cleaned;
        let exclamations = count_char CHR ''!'' cleaned;
        let hashtags = count_tagged CHR ''#'' cleaned;
        let mentions = count_tagged CHR ''@'' cleaned;
        let has_link = has_url cleaned;
        let sentences = map strip (filter (\<lambda>s. strip s \<noteq> []) (split_sentences cleaned));
        let sentence_lengths = map (\<lambda>s. length (words s)) sentences;
        avg_sentence_len \<leftarrow>
          (if sentence_lengths \<noteq> []
           then py_div (of_nat (sum_list sentence_lengths)) (of_nat (length sentence_lengths))
           else Some 0);
        let line_breaks = count_char NL cleaned;
        let has_list = has_list_line cleaned;
        let numbers = number_count cleaned;
        let len_score = length_score len content_type;
        let structure_score =
          min 1 ((if line_breaks \<ge> 1 then 4 / 10 else 0) + (if has_list then 4 / 10 else 0)
                 + (if numbers \<ge> 1 then 2 / 10 else 0));
        let hook = hook_score cleaned;
        let reply_potential =
          min 1 ((if question_marks > 0 then 6 / 10 else 0)
                 + (if has_keywords cleaned REPLY_KEYWORDS then 4 / 10 else 0));
        let share_potential =
          min 1 ((if has_list \<or> numbers \<ge> 1 then 3 / 10 else 0)
                 + (if has_keywords cleaned SHARE_KEYWORDS then 4 / 10 else 0)
                 + (if hook > 4 / 10 then 3 / 10 else 0));
        let click_potential =
          min 1 ((if has_keywords cleaned CLICK_KEYWORDS then 6 / 10 else 0)
                 + (if has_link then 4 / 10 else 0));
        let dwell_potential =
          min 1 ((5 / 10) * len_score + (3 / 10) * structure_score + (2 / 10) * hook);
        let clarity = clarity_score avg_sentence_len len exclamations;
        let risk = negative_risk cleaned hashtags mentions exclamations uppercase_ratio;
        let comps = [(''reply_potential'', reply_potential), (''share_potential'', share_potential),
                     (''click_potential'', click_potential), (''dwell_potential'', dwell_potential),
                     (''clarity'', clarity), (''negative_risk'', risk)];
        let ns = notes_from_components reply_potential share_potential click_potential
                   dwell_potential clarity risk len content_type;
        Some \<lparr>score = aggregate_score comps, components = comps, notes' = ns\<rparr>
      })"

text \<open>\<^verbatim>\<open>content: str | list[str]\<close>\<close>

datatype Content = Str string | Lst "string list"

text \<open>The loop \<^verbatim>\<open>for key in components: components[key] /= n\<close>\<close>

fun divide_all :: "dict \<Rightarrow> rat \<Rightarrow> dict option" where
  "divide_all [] n = Some []"
| "divide_all ((key, v) # d) n = do { q \<leftarrow> py_div v n; d' \<leftarrow> divide_all d n; Some ((key, q) # d') }"

text \<open>\<^verbatim>\<open>[self._score_text(text, content_type) for text in texts]\<close>\<close>

fun score_texts :: "string list \<Rightarrow> ContentType \<Rightarrow> ViralityResult list option" where
  "score_texts [] content_type = Some []"
| "score_texts (text # texts) content_type =
     do { r \<leftarrow> score_text text content_type; rs \<leftarrow> score_texts texts content_type; Some (r # rs) }"

definition sum_components :: "ViralityResult list \<Rightarrow> dict" where
  "sum_components per_text_results =
     fold (\<lambda>result comps.
             fold (\<lambda>(key, v) c. dict_set c key (dict_get c key 0 + v)) (components result) comps)
       per_text_results []"

definition ViralityScorer_score :: "Content \<Rightarrow> ContentType \<Rightarrow> ViralityResult option" where
  "ViralityScorer_score content content_type =
     (let texts = (case content of Lst l \<Rightarrow> l | Str s \<Rightarrow> [s]) in
      do {
        per_text_results \<leftarrow> score_texts texts content_type;
        if per_text_results = []
        then Some \<lparr>score = 0, components = [], notes' = [''No content to score'']\<rparr>
        else do {
          comps \<leftarrow> divide_all (sum_components per_text_results)
                     (of_nat (length per_text_results));
          let ns = take 6 (fromkeys (concat (map notes' per_text_results)));
          let sc = aggregate_score comps;
          if content_type = THREAD \<and> texts \<noteq> []
          then
            (case texts of
               [] \<Rightarrow> None
             | first # rest \<Rightarrow>
                 let hook = hook_score first;
                     sc = min 100 (sc + hook * 6);
                     ns = (if hook > 6 / 10 \<and> ''Strong hook'' \<notin> set ns
                           then ''Strong hook'' # ns else ns)
                 in Some \<lparr>score = py_round sc 1, components = comps, notes' = ns\<rparr>)
          else Some \<lparr>score = py_round sc 1, components = comps, notes' = ns\<rparr>
        }
      })"

section \<open>Parsing generated text (analysis/content\_generator.py)\<close>

text \<open>
  The scan for the end of a thread marker: the first index \<open>i > 0\<close> whose character is
  a space, a colon or a hyphen gives \<open>i + 1\<close>; without one the result is the
  length of the line.
\<close>

fun marker_end_from :: "nat \<Rightarrow> string \<Rightarrow> nat \<Rightarrow> nat" where
  "marker_end_from i [] dflt = dflt"
| "marker_end_from i (c # cs) dflt =
     (if i > 0 \<and> (c = CHR '' '' \<or> c = CHR '':'' \<or> c = CHR ''-'') then i + 1
      else marker_end_from (i + 1) cs dflt)"

definition marker_end :: "string \<Rightarrow> nat" where
  "marker_end line = marker_end_from 0 line (length line)"

text \<open>\<^verbatim>\<open>line and line[0].isdigit()\<close>\<close>

definition starts_with_digit :: "string \<Rightarrow> bool" where
  "starts_with_digit line = (case line of [] \<Rightarrow> False | c # cs \<Rightarrow> is_digit c)"

definition has_marker :: "string \<Rightarrow> bool" where
  "has_marker line = list_ex (\<lambda>pattern. contains pattern (take 6 line)) [''/'', '')'', ''.'']"

text \<open>\<^verbatim>\<open>tweets.append(" ".join(current_tweet).strip())\<close> when the buffer is not empty\<close>

definition flush :: "string list \<Rightarrow> string list \<Rightarrow> string list" where
  "flush tweets current_tweet =
     (if current_tweet \<noteq> [] then tweets @ [strip (join '' '' current_tweet)] else tweets)"

text \<open>One round of the loop over the lines; the state is \<open>(tweets, current_tweet)\<close>.\<close>

definition thread_step :: "string \<Rightarrow> string list \<times> string list \<Rightarrow> string list \<times> string list" where
  "thread_step raw_line st =
     (let (tweets, current_tweet) = st;
          line = strip raw_line
      in if line = [] then
           (if current_tweet \<noteq> [] then (flush tweets current_tweet, []) else (tweets, current_tweet))
         else if starts_with_digit line then
           (if has_marker line then
              let tweets = flush tweets current_tweet;
                  tweet_text = strip (drop (marker_end line) line)
              in (tweets, if tweet_text \<noteq> [] then [tweet_text] else [])
            else (tweets, current_tweet @ [line]))
         else (tweets, current_tweet @ [line]))"

text \<open>
  One round of the loop over the sentences of the fallback; the state is
  \<open>(chunks, current_chunk, current_length)\<close>.
\<close>

definition chunk_step ::
  "string \<Rightarrow> string list \<times> string list \<times> nat \<Rightarrow> string list \<times> string list \<times> nat" where
  "chunk_step raw_sentence st =
     (let (chunks, current_chunk, current_length) = st;
          sentence = strip raw_sentence
      in if sentence = [] then (chunks, current_chunk, current_length)
         else
           let sentence_length = length sentence + 1
           in if current_length + sentence_length > 260 \<and> current_chunk \<noteq> []
              then (chunks @ [join '' '' current_chunk], [sentence], length sentence)
              else (chunks, current_chunk @ [sentence], current_length + sentence_length))"

definition split_long_text :: "string \<Rightarrow> string list" where
  "split_long_text text =
     (let sentences = split [NL] (replace ''. '' (''.'' @ [NL]) text);
          (chunks, current_chunk, current_length) = fold chunk_step sentences ([], [], 0)
      in if current_chunk \<noteq> [] then chunks @ [join '' '' current_chunk] else chunks)"

definition parse_thread :: "string \<Rightarrow> string list" where
  "parse_thread generated_text =
     (let lines = split [NL] generated_text;
          (tweets, current_tweet) = fold thread_step lines ([], []);
          tweets = flush tweets current_tweet;
          tweets = filter (\<lambda>t. t \<noteq> []) tweets;
          tweets =
            (if length tweets < 2 then
               let paragraphs =
                     map strip (filter (\<lambda>p. strip p \<noteq> []) (split [NL, NL] generated_text))
               in if length paragraphs > 1 then paragraphs
                  else
                    let text = strip generated_text
                    in if length text > 400 then
                         let chunks = split_long_text text
                         in if chunks \<noteq> [] then take 10 chunks else tweets
                       else tweets
             else tweets)
      in if tweets = [] then [strip generated_text] else tweets)"

definition parse_single :: "string \<Rightarrow> string" where
  "parse_single generated_text =
     (let text = strip generated_text;
          lines = split [NL] text
      in if length lines > 1 then
           (case find (\<lambda>line. line \<noteq> [] \<and> \<not> starts_with_digit line) (map strip lines) of
              Some line \<Rightarrow> line
            | None \<Rightarrow> text)
         else text)"

text \<open>\<^verbatim>\<open>ContentGenerator._parse_generated_content\<close>\<close>

definition parse_generated_content :: "string \<Rightarrow> ContentType \<Rightarrow> Content" where
  "parse_generated_content generated_text content_type =
     (if content_type = THREAD then Lst (parse_thread generated_text)
      else Str (parse_single generated_text))"



section \<open>Posts and profiles (models/schemas.py)\<close>

text \<open>
  A \<^verbatim>\<open>datetime\<close> is the number of microseconds since a fixed instant, so any two of
  them can be compared and subtracted. The field \<^verbatim>\<open>text\<close> is \<open>text'\<close> here. Of
  \<^verbatim>\<open>VoiceProfile\<close> the record keeps the fields that the modelled code reads. Fields of
  the same name in two classes carry a prefix in the later record.
\<close>

type_synonym datetime = int

record Tweet =
  tweet_id :: string
  text' :: string
  created_at :: "datetime option"
  author_username :: string
  like_count :: "int option"
  retweet_count :: "int option"
  reply_count :: "int option"
  quote_count :: "int option"
  is_reply :: bool
  is_quote :: bool
  referenced_tweet_id :: "string option"

record UserInfo =
  username :: string
  user_id :: "string option"
  display_name :: "string option"
  bio :: "string option"
  followers_count :: "int option"
  following_count :: "int option"
  tweet_count :: "int option"

record VoiceProfile =
  vp_username :: string
  writing_style :: string
  tone :: string
  common_topics :: "string list"
  hashtag_usage :: "(string \<times> int) list"
  average_tweet_length :: "int option"

text \<open>\<^verbatim>\<open>x or 0\<close> for an optional count\<close>

definition or0 :: "int option \<Rightarrow> int" where
  "or0 x = (case x of None \<Rightarrow> 0 | Some n \<Rightarrow> n)"

text \<open>\<^verbatim>\<open>(b - a).days\<close> and \<^verbatim>\<open>a.hour\<close>\<close>

definition days_between :: "datetime \<Rightarrow> datetime \<Rightarrow> int" where
  "days_between a b = (b - a) div 86400000000"

definition hour :: "datetime \<Rightarrow> nat" where
  "hour t = nat ((t div 3600000000) mod 24)"

text \<open>
  \<^verbatim>\<open>sorted(xs, key=key, reverse=True)\<close>: descending, elements of equal keys in the order
  they had.
\<close>

definition sorted_desc :: "('a \<Rightarrow> rat) \<Rightarrow> 'a list \<Rightarrow> 'a list" where
  "sorted_desc key xs = sort_key (\<lambda>x. - key x) xs"

section \<open>Engagement analytics (utils/analytics.py)\<close>

text \<open>
  The entries of the result of \<^verbatim>\<open>analyze_engagement_patterns\<close> that the health scorer
  reads. The empty dictionary returned for no posts is \<open>None\<close>; the outer \<open>option\<close>
  of the function is the raised exception, as for \<open>py_div\<close>. A division by
  \<^verbatim>\<open>max(d, c)\<close> with a positive literal \<open>c\<close> cannot raise and is written \<open>/\<close>.
\<close>

record Patterns =
  average_metrics :: dict
  best_posting_hours :: "nat list"
  pattern_average_tweet_length :: rat

text \<open>
  \<^verbatim>\<open>hourly_engagement\<close>: per hour the sums of likes and retweets and the number of
  posts, the hours in the order of their first post.
\<close>

fun hourly_add ::
  "(nat \<times> int \<times> int \<times> int) list \<Rightarrow> nat \<Rightarrow> int \<Rightarrow> int \<Rightarrow> (nat \<times> int \<times> int \<times> int) list" where
  "hourly_add [] h l r = [(h, l, r, 1)]"
| "hourly_add ((h', l', r', c') # rest) h l r =
     (if h' = h then (h', l' + l, r' + r, c' + 1) # rest
      else (h', l', r', c') # hourly_add rest h l r)"

definition hourly_engagement :: "Tweet list \<Rightarrow> (nat \<times> int \<times> int \<times> int) list" where
  "hourly_engagement tweets =
     fold (\<lambda>tweet acc. case created_at tweet of
                           None \<Rightarrow> acc
                         | Some t \<Rightarrow> hourly_add acc (hour t) (or0 (like_count tweet))
                                     (or0 (retweet_count tweet)))
       tweets []"

definition analyze_engagement_patterns :: "Tweet list \<Rightarrow> Patterns option option" where
  "analyze_engagement_patterns tweets =
     (if tweets = [] then Some None
      else do {
        let total_likes = sum_list (map (\<lambda>t. or0 (like_count t)) tweets);
        let total_retweets = sum_list (map (\<lambda>t. or0 (retweet_count t)) tweets);
        let total_replies = sum_list (map (\<lambda>t. or0 (reply_count t)) tweets);
        let total_quotes = sum_list (map (\<lambda>t. or0 (quote_count t)) tweets);
        avg_likes \<leftarrow>
          (if tweets \<noteq> [] then py_div (of_int total_likes) (of_nat (length tweets)) else Some 0);
        avg_retweets \<leftarrow>
          (if tweets \<noteq> [] then py_div (of_int total_retweets) (of_nat (length tweets)) else Some 0);
        avg_replies \<leftarrow>
          (if tweets \<noteq> [] then py_div (of_int total_replies) (of_nat (length tweets)) else Some 0);
        avg_quotes \<leftarrow>
          (if tweets \<noteq> [] then py_div (of_int total_quotes) (of_nat (length tweets)) else Some 0);
        let best_hours =
          take 3 (sorted_desc (\<lambda>(h, l, r, c). of_int (l + r * 2) / of_int (max c 1))
                    (hourly_engagement tweets));
        let tweet_lengths = map (\<lambda>t. length (text' t)) tweets;
        avg_length \<leftarrow>
          (if tweet_lengths \<noteq> []
           then py_div (of_nat (sum_list tweet_lengths)) (of_nat (length tweet_lengths))
           else Some 0);
        Some (Some \<lparr>average_metrics =
                       [(''likes'', py_round avg_likes 2), (''retweets'', py_round avg_retweets 2),
                        (''replies'', py_round avg_replies 2), (''quotes'', py_round avg_quotes 2)],
                     best_posting_hours = map fst best_hours,
                     pattern_average_tweet_length = py_round avg_length 0\<rparr>)
      })"

section \<open>Profile health (analysis/profile\_health.py)\<close>

definition STOPWORDS :: "string list" where
  "STOPWORDS =
     [''the'', ''and'', ''for'', ''that'', ''with'', ''this'', ''you'', ''your'', ''are'', ''was'',
      ''were'', ''but'', ''not'', ''have'', ''has'', ''had'', ''its'', ''it'' @ [CHR 0x27] @ ''s'',
      ''they'', ''them'', ''from'', ''about'', ''into'', ''over'', ''after'', ''before'', ''just'',
      ''than'', ''then'', ''what'', ''when'', ''where'', ''which'', ''who'', ''why'', ''how'',
      ''also'', ''their'', ''there'', ''here'', ''because'', ''been'', ''being'', ''i'', ''im'',
      ''i'' @ [CHR 0x27] @ ''m'', ''we'', ''our'', ''us'', ''my'', ''me'']"

text \<open>
  A recommendation keeps its title and its priority; the explanation and the actions
  are fixed texts attached to the title. A step is one of six fixed sentences, the one
  about the posting hours with the hours it names.
\<close>

record Recommendation =
  title :: string
  priority :: string

datatype Step =
    Plan_schedule
  | Post_best_hours "nat list"
  | Publish_framework
  | Reply_weekly
  | Commit_themes
  | Keep_length

record Metrics =
  m_followers :: int
  m_avg_engagement :: rat
  m_engagement_rate :: rat
  m_posts_per_week :: rat
  m_avg_length :: rat
  m_reply_ratio :: rat
  m_hashtag_rate :: rat
  m_link_rate :: rat
  m_topic_focus :: rat
  m_best_posting_hours :: "nat list"

record ProfileHealthResult =
  r_username :: string
  overall_score :: rat
  scores :: dict
  metrics :: Metrics
  recommendations :: "Recommendation list"
  steps :: "Step list"

definition score_engagement_rate :: "rat \<Rightarrow> rat" where
  "score_engagement_rate rate =
     (if rate \<ge> 2 / 100 then 1
      else if rate \<ge> 1 / 100 then 8 / 10
      else if rate \<ge> 5 / 1000 then 6 / 10
      else if rate \<ge> 2 / 1000 then 45 / 100
      else if rate \<ge> 1 / 1000 then 3 / 10
      else 2 / 10)"

text \<open>
  \<^verbatim>\<open>max\<close> and \<^verbatim>\<open>min\<close> of the timestamps raise on an empty sequence; the check of
  the length comes first.
\<close>

definition score_cadence :: "Tweet list \<Rightarrow> (rat \<times> rat) option" where
  "score_cadence tweets =
     (let dated = filter (\<lambda>t. created_at t \<noteq> None) tweets in
      if length dated < 2 then Some (4 / 10, 0)
      else
        (case List.map_filter created_at dated of
           [] \<Rightarrow> None
         | d # ds \<Rightarrow>
             let latest = fold max ds d;
                 earliest = fold min ds d;
                 span_days = max (days_between earliest latest) 1;
                 posts_per_week = of_nat (length dated) / of_int span_days * 7;
                 sc = (if posts_per_week < 1 then 2 / 10
                       else if posts_per_week < 3 then 2 / 10 + (posts_per_week - 1) * (2 / 10)
                       else if posts_per_week \<le> 10 then 9 / 10
                       else if posts_per_week \<le> 20 then 7 / 10
                       else 5 / 10)
             in Some (sc, posts_per_week)))"

text \<open>\<^verbatim>\<open>voice_profile and voice_profile.average_tweet_length\<close>, when it is true\<close>

definition voice_average_length :: "VoiceProfile option \<Rightarrow> int option" where
  "voice_average_length voice_profile =
     (case voice_profile of
        None \<Rightarrow> None
      | Some vp \<Rightarrow>
          (case average_tweet_length vp of
             None \<Rightarrow> None
           | Some n \<Rightarrow> if n \<noteq> 0 then Some n else None))"

text \<open>\<^verbatim>\<open>patterns and patterns.get("average_tweet_length")\<close>, when it is true\<close>

definition patterns_average_length :: "Patterns option \<Rightarrow> rat option" where
  "patterns_average_length patterns =
     (case patterns of
        None \<Rightarrow> None
      | Some p \<Rightarrow> if pattern_average_tweet_length p \<noteq> 0
                  then Some (pattern_average_tweet_length p) else None)"

definition get_average_length ::
  "VoiceProfile option \<Rightarrow> Patterns option \<Rightarrow> Tweet list \<Rightarrow> rat option" where
  "get_average_length voice_profile patterns tweets =
     (case voice_average_length voice_profile of
        Some n \<Rightarrow> Some (of_int n)
      | None \<Rightarrow>
          (case patterns_average_length patterns of
             Some a \<Rightarrow> Some a
           | None \<Rightarrow>
               if tweets \<noteq> []
               then py_div (of_nat (sum_list (map (\<lambda>t. length (text' t)) tweets)))
                      (of_nat (length tweets))
               else Some 0))"

definition score_length :: "rat \<Rightarrow> rat" where
  "score_length avg_length =
     (if avg_length \<le> 0 then 4 / 10
      else if avg_length < 60 then 4 / 10
      else if avg_length < 90 then 6 / 10
      else if avg_length \<le> 200 then 95 / 100
      else if avg_length \<le> 240 then 7 / 10
      else 4 / 10)"

definition reply_ratio :: "Tweet list \<Rightarrow> rat option" where
  "reply_ratio tweets =
     (if tweets = [] then Some 0
      else py_div (of_nat (length (filter is_reply tweets))) (of_nat (length tweets)))"

definition score_reply_ratio :: "rat \<Rightarrow> rat" where
  "score_reply_ratio ratio =
     (let target = 45 / 100;
          distance = \<bar>ratio - target\<bar>
      in max (2 / 10) (1 - distance / target))"

definition average_hashtags :: "Tweet list \<Rightarrow> rat option" where
  "average_hashtags tweets =
     (if tweets = [] then Some 0
      else
        let counts = map (\<lambda>t. count_tagged CHR ''#'' (text' t)) tweets
        in py_div (of_nat (sum_list counts)) (of_nat (length counts)))"

definition score_hashtags :: "rat \<Rightarrow> rat" where
  "score_hashtags rate =
     (if rate \<le> 3 / 10 then 1
      else if rate \<le> 1 then 85 / 100
      else if rate \<le> 2 then 6 / 10
      else if rate \<le> 3 then 4 / 10
      else 2 / 10)"

definition average_links :: "Tweet list \<Rightarrow> rat option" where
  "average_links tweets =
     (if tweets = [] then Some 0
      else py_div (of_nat (length (filter (\<lambda>t. has_url (text' t)) tweets)))
             (of_nat (length tweets)))"

definition score_links :: "rat \<Rightarrow> rat" where
  "score_links rate =
     (if 5 / 100 \<le> rate \<and> rate \<le> 2 / 10 then 9 / 10
      else if rate < 5 / 100 then 6 / 10
      else if rate \<le> 35 / 100 then 7 / 10
      else 4 / 10)"

text \<open>
  \<^verbatim>\<open>re.sub(r"https?://\S+", "", s)\<close>: each scheme followed by at least one character
  that is not white space is removed with the longest run of such characters.
\<close>

definition url_rest :: "string \<Rightarrow> string option" where
  "url_rest s =
     (if prefix ''https://'' s then Some (drop 8 s)
      else if prefix ''http://'' s then Some (drop 7 s)
      else None)"

function remove_urls :: "string \<Rightarrow> string" where
  "remove_urls [] = []"
| "remove_urls (x # xs) =
     (case url_rest (x # xs) of
        Some rest \<Rightarrow>
          if takeWhile (\<lambda>c. \<not> is_space c) rest \<noteq> []
          then remove_urls (dropWhile (\<lambda>c. \<not> is_space c) rest)
          else x # remove_urls xs
      | None \<Rightarrow> x # remove_urls xs)"
  by pat_completeness auto
termination
proof (relation "measure length")
  fix x xs rest
  assume "url_rest (x # xs) = Some rest"
  then have "length rest \<le> length xs"
    by (auto simp: url_rest_def split: if_splits)
  moreover have "length (dropWhile (\<lambda>c. \<not> is_space c) rest) \<le> length rest"
    by (rule length_dropWhile_le)
  ultimately show "(dropWhile (\<lambda>c. \<not> is_space c) rest, x # xs) \<in> measure length"
    by simp
qed simp_all

text \<open>
  \<^verbatim>\<open>re.findall(r"\b[a-z]{4,}\b", s)\<close>: the maximal runs of word characters that are
  made of at least four lower-case letters.
\<close>

definition long_words :: "string \<Rightarrow> string list" where
  "long_words s = filter (\<lambda>w. length w \<ge> 4 \<and> list_all is_lower w) (words s)"

text \<open>\<^verbatim>\<open>Counter\<close>: each token with its number of occurrences, in the order of first ones.\<close>

fun counter_add :: "(string \<times> nat) list \<Rightarrow> string \<Rightarrow> (string \<times> nat) list" where
  "counter_add [] k = [(k, 1)]"
| "counter_add ((k', n) # rest) k =
     (if k' = k then (k', n + 1) # rest else (k', n) # counter_add rest k)"

definition Counter :: "string list \<Rightarrow> (string \<times> nat) list" where
  "Counter tokens = fold (\<lambda>t c. counter_add c t) tokens []"

definition most_common :: "nat \<Rightarrow> (string \<times> nat) list \<Rightarrow> (string \<times> nat) list" where
  "most_common n counts = take n (sorted_desc (\<lambda>(k, c). of_nat c) counts)"

definition score_topic_focus :: "Tweet list \<Rightarrow> VoiceProfile option \<Rightarrow> rat \<times> rat" where
  "score_topic_focus tweets voice_profile =
     (if (case voice_profile of None \<Rightarrow> False | Some vp \<Rightarrow> common_topics vp \<noteq> [])
      then
        let topic_count = length (case voice_profile of None \<Rightarrow> [] | Some vp \<Rightarrow> common_topics vp)
        in if 3 \<le> topic_count \<and> topic_count \<le> 7 then (1, of_nat topic_count)
           else if topic_count \<le> 2 then (5 / 10, of_nat topic_count)
           else if topic_count \<le> 12 then (7 / 10, of_nat topic_count)
           else (4 / 10, of_nat topic_count)
      else
        let tokens =
              concat (map (\<lambda>tweet.
                             filter (\<lambda>token. token \<notin> set STOPWORDS)
                               (long_words (remove_urls (lower (text' tweet)))))
                        tweets)
        in if tokens = [] then (4 / 10, 0)
           else
             let counts = Counter tokens;
                 total = sum_list (map snd counts);
                 top = sum_list (map snd (most_common 5 counts));
                 concentration = of_nat top / of_nat (max total 1)
             in if concentration \<ge> 18 / 100 then (1, concentration)
                else if concentration \<ge> 12 / 100 then (8 / 10, concentration)
                else if concentration \<ge> 8 / 100 then (6 / 10, concentration)
                else if concentration \<ge> 5 / 100 then (4 / 10, concentration)
                else (2 / 10, concentration))"

text \<open>The loop over \<^verbatim>\<open>tweets[:20]\<close> that collects the scores divided by 100.\<close>

fun virality_scores :: "Tweet list \<Rightarrow> rat list option" where
  "virality_scores [] = Some []"
| "virality_scores (tweet # tweets) =
     do {
       let content_type = (if is_reply tweet then REPLY else TWEET);
       r \<leftarrow> ViralityScorer_score (Str (text' tweet)) content_type;
       rest \<leftarrow> virality_scores tweets;
       Some (score r / 100 # rest)
     }"

definition average_virality :: "Tweet list \<Rightarrow> rat option" where
  "average_virality tweets =
     (if tweets = [] then Some (4 / 10)
      else do {
        scs \<leftarrow> virality_scores (take 20 tweets);
        if scs \<noteq> [] then py_div (sum_list scs) (of_nat (length scs)) else Some (4 / 10)
      })"

definition score_profile_completeness :: "UserInfo option \<Rightarrow> rat" where
  "score_profile_completeness user_info =
     (case user_info of
        None \<Rightarrow> 5 / 10
      | Some ui \<Rightarrow>
          let b = (case bio ui of None \<Rightarrow> [] | Some s \<Rightarrow> s)
          in if length (strip b) \<ge> 80 then 1
             else if length (strip b) \<ge> 20 then 7 / 10
             else if length (strip b) > 0 then 5 / 10
             else 3 / 10)"

definition weighted_overall :: "dict \<Rightarrow> rat" where
  "weighted_overall scs =
     (let weights = [(''engagement_quality'', 25 / 100), (''shareability'', 2 / 10),
                     (''cadence'', 15 / 100), (''topic_focus'', 12 / 100),
                     (''format_fit'', 1 / 10), (''conversation_balance'', 8 / 100),
                     (''hashtag_hygiene'', 5 / 100), (''link_balance'', 3 / 100),
                     (''profile_completeness'', 2 / 100)];
          total = sum_list (map snd weights);
          sc = sum_list (map (\<lambda>(key, weight). dict_get scs key (5 / 10) * weight) weights)
      in py_round ((sc / max total (1 / 1000000)) * 100) 1)"

definition build_recommendations :: "dict \<Rightarrow> Metrics \<Rightarrow> Recommendation list" where
  "build_recommendations scs ms =
     take 6
       ((if dict_get scs ''topic_focus'' 1 < 6 / 10
         then [\<lparr>title = ''Sharpen topical focus'', priority = ''high''\<rparr>] else []) @
        (if dict_get scs ''shareability'' 1 < 6 / 10
         then [\<lparr>title = ''Increase shareable formats'', priority = ''high''\<rparr>] else []) @
        (if dict_get scs ''engagement_quality'' 1 < 6 / 10
         then [\<lparr>title = ''Strengthen engagement hooks'', priority = ''high''\<rparr>] else []) @
        (if dict_get scs ''cadence'' 1 < 6 / 10
         then [\<lparr>title = ''Stabilize posting cadence'', priority = ''medium''\<rparr>] else []) @
        (if dict_get scs ''conversation_balance'' 1 < 6 / 10
         then [\<lparr>title = ''Balance replies and originals'', priority = ''medium''\<rparr>] else []) @
        (if dict_get scs ''format_fit'' 1 < 6 / 10
         then [\<lparr>title = ''Tighten post length'', priority = ''medium''\<rparr>] else []) @
        (if dict_get scs ''hashtag_hygiene'' 1 < 6 / 10
         then [\<lparr>title = ''Reduce hashtag usage'', priority = ''low''\<rparr>] else []) @
        (if dict_get scs ''link_balance'' 1 < 6 / 10
         then [\<lparr>title = ''Increase standalone value'', priority = ''low''\<rparr>] else []) @
        (if dict_get scs ''profile_completeness'' 1 < 6 / 10
         then [\<lparr>title = ''Improve profile clarity'', priority = ''low''\<rparr>] else []))"

definition build_steps :: "dict \<Rightarrow> Metrics \<Rightarrow> Step list" where
  "build_steps scs ms =
     (let best_hours = m_best_posting_hours ms in
      take 6
        ((if dict_get scs ''cadence'' 1 < 7 / 10 then [Plan_schedule] else []) @
         (if best_hours \<noteq> [] then [Post_best_hours (take 3 best_hours)] else []) @
         (if dict_get scs ''shareability'' 1 < 7 / 10 then [Publish_framework] else []) @
         (if dict_get scs ''conversation_balance'' 1 < 7 / 10 then [Reply_weekly] else []) @
         (if dict_get scs ''topic_focus'' 1 < 7 / 10 then [Commit_themes] else []) @
         (if dict_get scs ''format_fit'' 1 < 7 / 10 then [Keep_length] else [])))"

text \<open>\<^verbatim>\<open>followers or 1\<close> and \<^verbatim>\<open>followers or 0\<close>\<close>

definition or_default :: "int option \<Rightarrow> int \<Rightarrow> int" where
  "or_default x d = (case x of None \<Rightarrow> d | Some n \<Rightarrow> if n = 0 then d else n)"

definition score_profile_health ::
  "string \<Rightarrow> Tweet list \<Rightarrow> UserInfo option \<Rightarrow> VoiceProfile option \<Rightarrow> ProfileHealthResult option" where
  "score_profile_health user tweets user_info voice_profile =
     do {
       patterns \<leftarrow> analyze_engagement_patterns tweets;
       let followers = (case user_info of None \<Rightarrow> None | Some ui \<Rightarrow> followers_count ui);
       let avg_metrics = (case patterns of None \<Rightarrow> [] | Some p \<Rightarrow> average_metrics p);
       let avg_likes = dict_get avg_metrics ''likes'' 0;
       let avg_retweets = dict_get avg_metrics ''retweets'' 0;
       let avg_replies = dict_get avg_metrics ''replies'' 0;
       let avg_quotes = dict_get avg_metrics ''quotes'' 0;
       let avg_engagement = avg_likes + (avg_retweets * 2) + avg_replies + avg_quotes;
       let engagement_rate = avg_engagement / max (of_int (or_default followers 1)) 1;
       (cadence_score, posts_per_week) \<leftarrow> score_cadence tweets;
       let engagement_score = score_engagement_rate engagement_rate;
       avg_length \<leftarrow> get_average_length voice_profile patterns tweets;
       let format_score = score_length avg_length;
       ratio \<leftarrow> reply_ratio tweets;
       let conversation_score = score_reply_ratio ratio;
       hashtag_rate \<leftarrow> average_hashtags tweets;
       let hashtag_score = score_hashtags hashtag_rate;
       link_rate \<leftarrow> average_links tweets;
       let link_score = score_links link_rate;
       let (topic_focus_score, topic_focus_metric) = score_topic_focus tweets voice_profile;
       virality_score \<leftarrow> average_virality tweets;
       let profile_score = score_profile_completeness user_info;
       let scs = [(''engagement_quality'', engagement_score), (''cadence'', cadence_score),
                  (''topic_focus'', topic_focus_score), (''format_fit'', format_score),
                  (''conversation_balance'', conversation_score),
                  (''shareability'', virality_score), (''hashtag_hygiene'', hashtag_score),
                  (''link_balance'', link_score), (''profile_completeness'', profile_score)];
       let overall = weighted_overall scs;
       let ms = \<lparr>m_followers = or_default followers 0,
                  m_avg_engagement = py_round avg_engagement 2,
                  m_engagement_rate = py_round engagement_rate 4,
                  m_posts_per_week = py_round posts_per_week 2,
                  m_avg_length = py_round avg_length 1,
                  m_reply_ratio = py_round ratio 2,
                  m_hashtag_rate = py_round hashtag_rate 2,
                  m_link_rate = py_round link_rate 2,
                  m_topic_focus = py_round topic_focus_metric 3,
                  m_best_posting_hours =
                    (case patterns of None \<Rightarrow> [] | Some p \<Rightarrow> best_posting_hours p)\<rparr>;
       Some \<lparr>r_username = user, overall_score = overall, scores = scs, metrics = ms,
             recommendations = build_recommendations scs ms, steps = build_steps scs ms\<rparr>
     }"

text \<open>
  The reading of the specification for the engagement quality: the averages are the
  arithmetic means over all posts, a missing count taken as 0.
\<close>

definition mean_count :: "(Tweet \<Rightarrow> int option) \<Rightarrow> Tweet list \<Rightarrow> rat" where
  "mean_count field tweets =
     (if tweets = [] then 0
      else of_int (sum_list (map (\<lambda>t. or0 (field t)) tweets)) / of_nat (length tweets))"


section \<open>Sample inputs\<close>

text \<open>A one-segment thread: a hook, a numbered list with a link, and a question.\<close>

definition hook_thread_text :: string where
  "hook_thread_text =
     ''The truth about airdrop scams:'' @ [NL] @
     ''1. Read the full guide at www.example.com'' @ [NL] @
     ''2. Do you agree?''"

text \<open>A post with no date and no counts, from which the sample posts are made.\<close>

definition plain_post :: Tweet where
  "plain_post =
     \<lparr>tweet_id = ''1'', text' = ''gm'', created_at = None, author_username = ''sample'',
      like_count = None, retweet_count = None, reply_count = None, quote_count = None,
      is_reply = False, is_quote = False, referenced_tweet_id = None\<rparr>"

text \<open>The post of day \<open>i\<close> in a series that starts at \<open>t0\<close>, one post a day.\<close>

definition one_day :: int where
  "one_day = 86400000000"

definition daily_post :: "datetime \<Rightarrow> nat \<Rightarrow> Tweet" where
  "daily_post t0 i = plain_post\<lparr>created_at := Some (t0 + int i * one_day)\<rparr>"


definition small_account :: UserInfo where
  "small_account =
     \<lparr>username = ''sample'', user_id = None, display_name = None, bio = None,
      followers_count = Some 333, following_count = None, tweet_count = None\<rparr>"

section \<open>Properties of the virality scorer\<close>

subsection \<open>Auxiliary facts\<close>

lemma py_div_Some: "b \<noteq> 0 \<Longrightarrow> py_div a b = Some (a / b)"
  by (simp add: py_div_def)

lemma guarded_mean:
  "(if xs \<noteq> [] then py_div a (of_nat (length xs)) else Some 0)
     = Some (if xs \<noteq> [] then a / of_nat (length xs) else 0)"
  by (simp add: py_div_def)

lemma score_text_returns: "\<exists>r. score_text text content_type = Some r"
  unfolding score_text_def Let_def guarded_mean
  by (cases "strip text = []") (simp_all split del: if_split)

lemma score_texts_returns:
  "\<exists>rs. score_texts texts content_type = Some rs \<and> length rs = length texts"
proof (induction texts)
  case Nil
  show ?case by simp
next
  case (Cons t ts)
  obtain r where "score_text t content_type = Some r"
    using score_text_returns by blast
  with Cons show ?case by auto
qed

lemma divide_all_returns: "n \<noteq> 0 \<Longrightarrow> \<exists>d'. divide_all d n = Some d'"
  by (induction d) (auto simp: py_div_def)

lemma aggregate_score_bounds: "0 \<le> aggregate_score c \<and> aggregate_score c \<le> 100"
  by (simp add: aggregate_score_def Let_def)

lemma round_half_even_bounds:
  assumes "of_int a \<le> x" and "x \<le> of_int b"
  shows "a \<le> round_half_even x \<and> round_half_even x \<le> b"
proof -
  have lo: "a \<le> \<lfloor>x\<rfloor>" using assms(1) by (simp add: le_floor_iff)
  have hi: "\<lfloor>x\<rfloor> \<le> b" using assms(2) by (simp add: floor_le_iff)
  have "0 < x - of_int \<lfloor>x\<rfloor> \<Longrightarrow> \<lfloor>x\<rfloor> + 1 \<le> b"
  proof -
    assume "0 < x - of_int \<lfloor>x\<rfloor>"
    then have "of_int \<lfloor>x\<rfloor> < (of_int b :: rat)" using assms(2) by linarith
    then show ?thesis by simp
  qed
  with lo hi show ?thesis
    by (auto simp: round_half_even_def Let_def)
qed

lemma py_round_bounds:
  assumes "0 \<le> x" and "x \<le> 100"
  shows "0 \<le> py_round x 1 \<and> py_round x 1 \<le> 100"
proof -
  have "of_int 0 \<le> x * 10" "x * 10 \<le> of_int 1000" using assms by simp_all
  then have "0 \<le> round_half_even (x * 10) \<and> round_half_even (x * 10) \<le> 1000"
    by (rule round_half_even_bounds)
  then have "(0::rat) \<le> of_int (round_half_even (x * 10))"
     and "of_int (round_half_even (x * 10)) \<le> (1000::rat)"
    by (simp_all add: of_int_le_iff[of _ 1000, where 'a=rat, simplified])
  then show ?thesis by (simp add: py_round_def)
qed

lemma py_round_zero: "py_round 0 n = 0"
  by (simp add: py_round_def round_half_even_def)

lemma hook_score_nonneg: "0 \<le> hook_score t"
  by (simp add: hook_score_def Let_def)

lemma hook_score_Nil: "hook_score [] = 0"
  by (simp add: hook_score_def lower_def)

lemma strip_Nil: "strip [] = []"
  by (simp add: strip_def)

lemma aggregate_score_Nil: "aggregate_score [] = 0"
  by (simp add: aggregate_score_def dict_get_def)

lemma score_text_Nil:
  "score_text [] content_type = Some \<lparr>score = 0, components = [], notes' = [''Empty content'']\<rparr>"
  by (simp add: score_text_def strip_Nil)

subsection \<open>The score is between 0 and 100\<close>

lemma score_in_range_aux:
  "\<exists>r. ViralityScorer_score content content_type = Some r \<and> 0 \<le> score r \<and> score r \<le> 100"
proof -
  define texts where "texts = (case content of Lst l \<Rightarrow> l | Str s \<Rightarrow> [s])"
  obtain rs where rs: "score_texts texts content_type = Some rs" "length rs = length texts"
    using score_texts_returns by blast
  show ?thesis
  proof (cases "rs = []")
    case True
    with rs show ?thesis
      by (simp add: ViralityScorer_score_def texts_def[symmetric])
  next
    case False
    then obtain comps where comps:
      "divide_all (sum_components rs) (of_nat (length rs)) = Some comps"
      using divide_all_returns[of "of_nat (length rs)"] by auto
    let ?sc = "aggregate_score comps"
    have b: "0 \<le> ?sc" "?sc \<le> 100" using aggregate_score_bounds by simp_all
    show ?thesis
    proof (cases texts)
      case Nil
      with rs False show ?thesis by simp
    next
      case (Cons first rest)
      have h: "0 \<le> hook_score first" by (rule hook_score_nonneg)
      have "0 \<le> min 100 (?sc + hook_score first * 6)" "min 100 (?sc + hook_score first * 6) \<le> 100"
        using b h by simp_all
      then have "0 \<le> py_round (min 100 (?sc + hook_score first * 6)) 1
               \<and> py_round (min 100 (?sc + hook_score first * 6)) 1 \<le> 100"
        by (rule py_round_bounds)
      moreover have "0 \<le> py_round ?sc 1 \<and> py_round ?sc 1 \<le> 100"
        using b by (rule py_round_bounds)
      ultimately show ?thesis
        using rs False comps Cons
        by (simp add: ViralityScorer_score_def texts_def[symmetric] Let_def)
    qed
  qed
qed

text \<open>
  Claim C1. For every content, a string or a list of strings, and every content type,
  \<^verbatim>\<open>ViralityScorer.score\<close> returns a result and the score of that result lies in the
  closed interval from 0 to 100.
\<close>

theorem score_in_range:
  "\<exists>r. ViralityScorer_score content content_type = Some r \<and> 0 \<le> score r \<and> score r \<le> 100"
  by (rule score_in_range_aux)

theorem score_in_range_witness:
  "\<exists>r. ViralityScorer_score (Lst [''stop'', ''go'']) THREAD = Some r \<and> 0 \<le> score r \<and> score r \<le> 100"
  using score_in_range [of "Lst [''stop'', ''go'']" THREAD] by simp

subsection \<open>Empty content\<close>

text \<open>
  Claim C2, as the code has it. The empty list of texts gives the score 0, no
  components and the one note \<^verbatim>\<open>No content to score\<close>. The empty string is one text
  that is empty: it gives the score 0 and no components too, but its one note is
  \<^verbatim>\<open>Empty content\<close>.
\<close>

theorem empty_content_result:
  "ViralityScorer_score (Lst []) content_type
     = Some \<lparr>score = 0, components = [], notes' = [''No content to score'']\<rparr>
   \<and> ViralityScorer_score (Str []) content_type
     = Some \<lparr>score = 0, components = [], notes' = [''Empty content'']\<rparr>"
  by (simp add: ViralityScorer_score_def score_text_Nil sum_components_def fromkeys_def
        aggregate_score_Nil py_round_zero hook_score_Nil Let_def)

theorem empty_content_result_witness:
  "ViralityScorer_score (Lst []) REPLY
     = Some \<lparr>score = 0, components = [], notes' = [''No content to score'']\<rparr>
   \<and> ViralityScorer_score (Str []) REPLY
     = Some \<lparr>score = 0, components = [], notes' = [''Empty content'']\<rparr>"
  using empty_content_result [of REPLY] by simp

text \<open>
  The claim as stated fails for the empty string with the content type \<^verbatim>\<open>TWEET\<close>:
  the result is not the one with the note \<^verbatim>\<open>No content to score\<close>.
\<close>

theorem empty_string_note_counterexample:
  "ViralityScorer_score (Str []) TWEET
     \<noteq> Some \<lparr>score = 0, components = [], notes' = [''No content to score'']\<rparr>"
  by (simp add: ViralityScorer_score_def score_text_Nil sum_components_def fromkeys_def
        aggregate_score_Nil py_round_zero Let_def)

subsection \<open>The length score is a trapezoid\<close>

text \<open>
  Claim C8. For every length and every content type the length score is 0 at and
  outside the hard bounds 30 and 280, rises linearly from the lower hard bound to the
  lower end of the ideal band of the content type, is 1 inside the ideal band, and falls
  linearly from the upper end of the ideal band to the upper hard bound.
\<close>

theorem length_score_trapezoid:
  "length_score n content_type =
     (let (lo, hi) = spec_ideal_band content_type; x = of_nat n
      in if x \<le> 30 \<or> 280 \<le> x then 0
         else if x < lo then (x - 30) / (lo - 30)
         else if x \<le> hi then 1
         else (280 - x) / (280 - hi))"
  by (cases content_type) (simp_all add: length_score_def spec_ideal_band_def Let_def max_def)

theorem length_score_trapezoid_witness:
  "length_score 45 REPLY = 1 / 2 \<and> length_score 240 TWEET = 2 / 3 \<and> length_score 150 QUOTE = 1
   \<and> length_score 280 THREAD = 0"
  using length_score_trapezoid [of 45 REPLY] length_score_trapezoid [of 240 TWEET]
    length_score_trapezoid [of 150 QUOTE] length_score_trapezoid [of 280 THREAD]
  by (simp add: spec_ideal_band_def)

subsection \<open>The notes of a thread with a strong hook\<close>

lemma hook_text_strip: "strip hook_thread_text = hook_thread_text"
  unfolding hook_thread_text_def by code_simp

lemma hook_text_counts:
  "length hook_thread_text = 89"
  "length (filter is_letter hook_thread_text) = 66"
  "length (filter is_upper hook_thread_text) = 3"
  "count_char CHR ''?'' hook_thread_text = 1"
  "count_char CHR ''!'' hook_thread_text = 0"
  "count_char NL hook_thread_text = 2"
  "count_tagged CHR ''#'' hook_thread_text = 0"
  "count_tagged CHR ''@'' hook_thread_text = 0"
  "number_count hook_thread_text = 2"
  unfolding hook_thread_text_def by code_simp+

lemma hook_text_flags:
  "has_url hook_thread_text"
  "has_list_line hook_thread_text"
  "has_keywords hook_thread_text REPLY_KEYWORDS"
  "has_keywords hook_thread_text SHARE_KEYWORDS"
  "has_keywords hook_thread_text CLICK_KEYWORDS"
  "hook_score hook_thread_text = 1"
  unfolding hook_thread_text_def by code_simp+

lemma hook_text_sentences:
  "map (\<lambda>s. length (words s))
     (map strip (filter (\<lambda>s. strip s \<noteq> []) (split_sentences hook_thread_text)))
   = [6, 6, 1, 2, 3]"
  unfolding hook_thread_text_def by code_simp

lemma hook_text_risk:
  "negative_risk hook_thread_text 0 0 0 (1 / 22) = 1 / 2"
  unfolding hook_thread_text_def by code_simp

lemma hook_text_letters: "filter is_letter hook_thread_text \<noteq> []"
  using hook_text_counts(2) by auto

lemma hook_text_score_text:
  "score_text hook_thread_text THREAD =
     Some \<lparr>score = 17851 / 252,
           components =
             [(''reply_potential'', 1), (''share_potential'', 1), (''click_potential'', 1),
              (''dwell_potential'', 149 / 180), (''clarity'', 9 / 35), (''negative_risk'', 1 / 2)],
           notes' =
             [''Shareable insight'', ''Strong reply prompt'', ''Clear click value'',
              ''Good dwell potential'', ''Clarity could be tighter'',
              ''Risk: looks like engagement bait'']\<rparr>"
proof -
  have nonempty: "hook_thread_text \<noteq> []" using hook_text_counts(1) by auto
  show ?thesis
    unfolding score_text_def Let_def hook_text_strip hook_text_sentences
    by (simp add: nonempty hook_text_counts hook_text_flags hook_text_letters hook_text_risk
          py_div_def length_score_def clarity_score_def notes_from_components_def
          aggregate_score_def dict_get_def)
qed

text \<open>
  Claim C9 at the thread \<open>[hook_thread_text]\<close>. The segment earns all six notes of
  \<^verbatim>\<open>_notes_from_components\<close>, the cut to six keeps them all, and \<^verbatim>\<open>Strong hook\<close> is
  then put in front: the result has seven notes (none of them twice).
\<close>

theorem strong_hook_seventh_note:
  "map_option notes' (ViralityScorer_score (Lst [hook_thread_text]) THREAD) =
     Some [''Strong hook'', ''Shareable insight'', ''Strong reply prompt'', ''Clear click value'',
           ''Good dwell potential'', ''Clarity could be tighter'',
           ''Risk: looks like engagement bait'']"
  by (simp add: ViralityScorer_score_def hook_text_score_text sum_components_def dict_get_def
        py_div_def fromkeys_def Let_def hook_text_flags)

section \<open>Properties of the parser\<close>

subsection \<open>Auxiliary facts\<close>












subsection \<open>A numbered thread\<close>

text \<open>
  Claim C4. The text \<^verbatim>\<open>1/3 first\<close>, \<^verbatim>\<open>2/3 second\<close>, \<^verbatim>\<open>3/3 third\<close> on three lines,
  parsed as a thread, gives the segments \<^verbatim>\<open>first\<close>, \<^verbatim>\<open>second\<close>, \<^verbatim>\<open>third\<close> in
  this order; lines numbered \<^verbatim>\<open>1/5\<close>, \<^verbatim>\<open>1)\<close> and \<^verbatim>\<open>1.\<close> are taken as markers in
  the same way.
\<close>

theorem numbered_thread_parses:
  "parse_generated_content (''1/3 first'' @ [NL] @ ''2/3 second'' @ [NL] @ ''3/3 third'') THREAD
     = Lst [''first'', ''second'', ''third'']
   \<and> parse_generated_content (''1/5 first'' @ [NL] @ ''2/5 second'') THREAD
     = Lst [''first'', ''second'']
   \<and> parse_generated_content (''1) first'' @ [NL] @ ''2) second'') THREAD
     = Lst [''first'', ''second'']
   \<and> parse_generated_content (''1. first'' @ [NL] @ ''2. second'') THREAD
     = Lst [''first'', ''second'']"
  by code_simp

subsection \<open>The segments of a thread\<close>





subsection \<open>A single post\<close>




section \<open>Properties of the health scorer\<close>

subsection \<open>Auxiliary facts\<close>

lemma score_length_range: "0 \<le> score_length a \<and> score_length a \<le> 1"
  by (simp add: score_length_def)

lemma score_topic_focus_range:
  "0 \<le> fst (score_topic_focus tweets vp) \<and> fst (score_topic_focus tweets vp) \<le> 1"
  by (simp add: score_topic_focus_def Let_def)

lemma score_profile_completeness_range:
  "0 \<le> score_profile_completeness ui \<and> score_profile_completeness ui \<le> 1"
  by (simp add: score_profile_completeness_def Let_def split: option.split)

lemma weighted_overall_bounds:
  assumes "0 \<le> e \<and> e \<le> 1" "0 \<le> c \<and> c \<le> 1" "0 \<le> t \<and> t \<le> 1" "0 \<le> f \<and> f \<le> 1"
    "0 \<le> b \<and> b \<le> 1" "0 \<le> s \<and> s \<le> 1" "0 \<le> h \<and> h \<le> 1" "0 \<le> l \<and> l \<le> 1" "0 \<le> p \<and> p \<le> 1"
  shows "0 \<le> weighted_overall
           [(''engagement_quality'', e), (''cadence'', c), (''topic_focus'', t),
            (''format_fit'', f), (''conversation_balance'', b), (''shareability'', s),
            (''hashtag_hygiene'', h), (''link_balance'', l), (''profile_completeness'', p)]
       \<and> weighted_overall
           [(''engagement_quality'', e), (''cadence'', c), (''topic_focus'', t),
            (''format_fit'', f), (''conversation_balance'', b), (''shareability'', s),
            (''hashtag_hygiene'', h), (''link_balance'', l), (''profile_completeness'', p)] \<le> 100"
proof -
  define x where "x = (e * (25 / 100) + (s * (2 / 10) + (c * (15 / 100) + (t * (12 / 100)
      + (f * (1 / 10) + (b * (8 / 100) + (h * (5 / 100) + (l * (3 / 100) + p * (2 / 100)))))))))"
  have w: "weighted_overall
           [(''engagement_quality'', e), (''cadence'', c), (''topic_focus'', t),
            (''format_fit'', f), (''conversation_balance'', b), (''shareability'', s),
            (''hashtag_hygiene'', h), (''link_balance'', l), (''profile_completeness'', p)]
        = py_round (x * 100) 1"
    by (simp add: weighted_overall_def dict_get_def x_def)
  have "0 \<le> x" "x \<le> 1" using assms unfolding x_def by linarith+
  then have "0 \<le> x * 100" "x * 100 \<le> 100" by simp_all
  then show ?thesis unfolding w by (rule py_round_bounds)
qed


lemma get_average_length_Nil:
  "get_average_length vp None [] =
     Some (case voice_average_length vp of Some n \<Rightarrow> of_int n | None \<Rightarrow> 0)"
  by (simp add: get_average_length_def patterns_average_length_def split: option.split)








lemma mean_div:
  "tweets \<noteq> [] \<Longrightarrow>
   py_div (of_int (sum_list (map (\<lambda>t. or0 (field t)) tweets))) (of_nat (length tweets))
     = Some (mean_count field tweets)"
  by (simp add: py_div_def mean_count_def)

lemma analyze_Nil: "analyze_engagement_patterns [] = Some None"
  by (simp add: analyze_engagement_patterns_def)



lemma dict_get_Nil: "dict_get [] k dflt = dflt"
  by (simp add: dict_get_def)

lemma dict_get_Cons:
  "dict_get ((k', v) # d) k dflt = (if k' = k then v else dict_get d k dflt)"
  by (simp add: dict_get_def)



subsection \<open>No posts\<close>

text \<open>
  Claim C3. For every handle, with or without profile information and voice profile,
  \<^verbatim>\<open>score_profile_health\<close> on the empty list of posts returns a result. Its overall
  score lies between 0 and 100 and comes from the defaults: the cadence is 0.4 with 0
  posts per week, the engagement quality 0.2, the shareability 0.4, the conversation
  balance 0.2, the hashtag hygiene 1 and the link balance 0.6.
\<close>

theorem empty_posts_health:
  "\<exists>r. score_profile_health user [] user_info voice_profile = Some r
     \<and> 0 \<le> overall_score r \<and> overall_score r \<le> 100
     \<and> overall_score r = weighted_overall (scores r)
     \<and> dict_get (scores r) ''cadence'' 0 = 4 / 10
     \<and> m_posts_per_week (metrics r) = 0
     \<and> dict_get (scores r) ''engagement_quality'' 0 = 2 / 10
     \<and> dict_get (scores r) ''shareability'' 0 = 4 / 10
     \<and> dict_get (scores r) ''conversation_balance'' 0 = 2 / 10
     \<and> dict_get (scores r) ''hashtag_hygiene'' 0 = 1
     \<and> dict_get (scores r) ''link_balance'' 0 = 6 / 10"
proof -
  define t where "t = fst (score_topic_focus [] voice_profile)"
  define f where "f = score_length (case voice_average_length voice_profile of
                                      Some n \<Rightarrow> of_int n | None \<Rightarrow> 0)"
  define p where "p = score_profile_completeness user_info"
  define scs where "scs =
     [(''engagement_quality'', 2 / 10), (''cadence'', 4 / 10), (''topic_focus'', t),
      (''format_fit'', f), (''conversation_balance'', 2 / 10), (''shareability'', 4 / 10),
      (''hashtag_hygiene'', 1), (''link_balance'', 6 / 10), (''profile_completeness'', p)]"
  have c: "score_cadence [] = Some (4 / 10, 0)" by (simp add: score_cadence_def)
  have rr: "reply_ratio [] = Some 0" by (simp add: reply_ratio_def)
  have hr: "average_hashtags [] = Some 0" by (simp add: average_hashtags_def)
  have lr: "average_links [] = Some 0" by (simp add: average_links_def)
  have v: "average_virality [] = Some (4 / 10)" by (simp add: average_virality_def)
  have subs: "score_engagement_rate 0 = 2 / 10" "score_reply_ratio 0 = 2 / 10"
    "score_hashtags 0 = 1" "score_links 0 = 6 / 10"
    by (simp_all add: score_engagement_rate_def score_reply_ratio_def score_hashtags_def
          score_links_def)
  have "\<exists>r. score_profile_health user [] user_info voice_profile = Some r
          \<and> scores r = scs \<and> overall_score r = weighted_overall scs
          \<and> m_posts_per_week (metrics r) = 0"
    by (simp add: score_profile_health_def Let_def analyze_Nil c get_average_length_Nil rr hr lr v
          subs dict_get_Nil py_round_zero scs_def t_def f_def p_def split: prod.split)
  then obtain r where r: "score_profile_health user [] user_info voice_profile = Some r"
      "scores r = scs" "overall_score r = weighted_overall scs" "m_posts_per_week (metrics r) = 0"
    by blast
  have "0 \<le> t \<and> t \<le> 1" unfolding t_def by (rule score_topic_focus_range)
  moreover have "0 \<le> f \<and> f \<le> 1" unfolding f_def by (rule score_length_range)
  moreover have "0 \<le> p \<and> p \<le> 1" unfolding p_def by (rule score_profile_completeness_range)
  ultimately have "0 \<le> weighted_overall scs \<and> weighted_overall scs \<le> 100"
    unfolding scs_def by (intro weighted_overall_bounds) simp_all
  moreover have "dict_get scs ''cadence'' 0 = 4 / 10" "dict_get scs ''engagement_quality'' 0 = 2 / 10"
    "dict_get scs ''shareability'' 0 = 4 / 10" "dict_get scs ''conversation_balance'' 0 = 2 / 10"
    "dict_get scs ''hashtag_hygiene'' 0 = 1" "dict_get scs ''link_balance'' 0 = 6 / 10"
    by (simp_all add: scs_def dict_get_Cons)
  ultimately show ?thesis using r by simp
qed

theorem empty_posts_health_witness:
  "\<exists>r. score_profile_health ''sample'' [] (Some small_account) None = Some r
     \<and> 0 \<le> overall_score r \<and> overall_score r \<le> 100
     \<and> dict_get (scores r) ''cadence'' 0 = 4 / 10
     \<and> m_posts_per_week (metrics r) = 0"
  using empty_posts_health [of "''sample''" "Some small_account" None] by blast

subsection \<open>The engagement quality\<close>




end
